theory Spec2Isabelle
  imports Complex_Main
begin

section \<open>Numbers\<close>

text \<open>
  The guidance node computes with Python floats and numpy \<open>float64\<close> scalars. They are
  idealised here as exact reals: rounding, overflow and signed zeros are outside the model.
  One thing is not idealised away. \<open>lookaheadBasedSteering\<close> divides a numpy scalar by
  the look-ahead distance, and numpy does not raise when the divisor is zero: it yields
  an infinity (non-zero numerator) or NaN (zero numerator). HOL's \<open>a / 0 = 0\<close> is neither,
  so the values that this division can produce, and everything computed from them, live
  in the type \<open>npfloat\<close>, with the arithmetic and the comparisons of IEEE 754 on it.
\<close>

datatype npfloat = Finite real | PInf | NInf | NaN

text \<open>\<open>a / b\<close> for a numpy scalar \<open>a\<close>: no exception, infinities and NaN instead.\<close>

definition np_truediv :: "real \<Rightarrow> real \<Rightarrow> npfloat" where
  "np_truediv a b =
     (if b \<noteq> 0 then Finite (a / b)
      else if 0 < a then PInf
      else if a < 0 then NInf
      else NaN)"

fun np_arctan :: "npfloat \<Rightarrow> npfloat" where
  "np_arctan (Finite a) = Finite (arctan a)"
| "np_arctan PInf = Finite (pi / 2)"
| "np_arctan NInf = Finite (- (pi / 2))"
| "np_arctan NaN = NaN"

fun np_neg :: "npfloat \<Rightarrow> npfloat" where
  "np_neg (Finite a) = Finite (- a)"
| "np_neg PInf = NInf"
| "np_neg NInf = PInf"
| "np_neg NaN = NaN"

fun np_add :: "npfloat \<Rightarrow> npfloat \<Rightarrow> npfloat" where
  "np_add (Finite a) (Finite b) = Finite (a + b)"
| "np_add NaN _ = NaN"
| "np_add _ NaN = NaN"
| "np_add PInf NInf = NaN"
| "np_add NInf PInf = NaN"
| "np_add PInf _ = PInf"
| "np_add _ PInf = PInf"
| "np_add NInf _ = NInf"
| "np_add _ NInf = NInf"

definition np_sub :: "npfloat \<Rightarrow> npfloat \<Rightarrow> npfloat" where
  "np_sub a b = np_add a (np_neg b)"

text \<open>\<open>a < b\<close>; every comparison with NaN is false.\<close>

fun np_less :: "npfloat \<Rightarrow> npfloat \<Rightarrow> bool" where
  "np_less (Finite a) (Finite b) = (a < b)"
| "np_less NaN _ = False"
| "np_less _ NaN = False"
| "np_less _ NInf = False"
| "np_less PInf _ = False"
| "np_less NInf _ = True"
| "np_less _ PInf = True"

text \<open>
  \<open>np.arctan2\<close> is a library function; it is modelled by the usual case analysis on
  the quadrant, with values in \<open>(-\<pi>, \<pi>]\<close> and \<open>arctan2 0 0 = 0\<close>.
\<close>

definition arctan2 :: "real \<Rightarrow> real \<Rightarrow> real" where
  "arctan2 b a =
     (if 0 < a then arctan (b / a)
      else if a < 0 \<and> 0 \<le> b then arctan (b / a) + pi
      else if a < 0 \<and> b < 0 then arctan (b / a) - pi
      else if 0 < b then pi / 2
      else if b < 0 then - (pi / 2)
      else 0)"

text \<open>The 2-by-2 arrays of \<open>getEpsilonVector\<close>: a matrix is a pair of rows.\<close>

type_synonym vec2 = "real \<times> real"
type_synonym mat2 = "vec2 \<times> vec2"

definition np_transpose :: "mat2 \<Rightarrow> mat2" where
  "np_transpose m = (case m of ((a, b), (c, d)) \<Rightarrow> ((a, c), (b, d)))"

definition np_dot :: "mat2 \<Rightarrow> vec2 \<Rightarrow> vec2" where
  "np_dot m p = (case m of ((a, b), (c, d)) \<Rightarrow> (a * fst p + b * snd p, c * fst p + d * snd p))"

definition vec_sub :: "vec2 \<Rightarrow> vec2 \<Rightarrow> vec2" where
  "vec_sub p q = (fst p - fst q, snd p - snd q)"

section \<open>The class LOS\<close>

text \<open>
  The update period \<open>self.h\<close> is assigned once, in \<open>__init__\<close>, and never written
  again: it is a constant of the model.
\<close>

definition LOS_h :: real where
  "LOS_h = 5 / 100"

text \<open>
  One field per attribute. \<open>__init__\<close> creates \<open>u\<close>, the position, the waypoints,
  \<open>z_d\<close>, \<open>speed\<close>, \<open>R\<close> and \<open>delta\<close>; the attributes from \<open>u_dot\<close> to \<open>t\<close> are
  created by the first \<open>updateState\<close> and those from \<open>y_delta\<close> on by the first
  \<open>lookaheadBasedSteering\<close>. The flag \<open>has_state\<close> records whether \<open>updateState\<close>
  has run, that is whether \<open>self.psi\<close> exists: \<open>goalCB\<close> reads it and is the only
  method that can run before the first sample.
\<close>

record LOS =
  u :: real
  x :: real
  y :: real
  z :: real
  x_k :: real
  y_k :: real
  x_kp1 :: real
  y_kp1 :: real
  z_d :: real
  speed :: real
  R :: real
  delta :: real
  has_state :: bool
  u_dot :: real
  v :: real
  w :: real
  psi :: real
  r :: real
  t :: real
  y_delta :: real
  x_delta :: real
  alpha :: real
  s :: real
  e :: real
  chi_p :: real
  chi_r :: npfloat
  chi_d :: npfloat

definition updateState ::
  "LOS \<Rightarrow> real \<Rightarrow> real \<Rightarrow> real \<Rightarrow> real \<Rightarrow> real \<Rightarrow> real \<Rightarrow> real \<Rightarrow> real \<Rightarrow> real \<Rightarrow> LOS" where
  "updateState self x' y' z' u' v' w' psi' r' time =
     self\<lparr>x := x', y := y', z := z',
          u_dot := (u' - u self) / LOS_h,
          u := u', v := v', w := w',
          psi := psi', r := r', t := time,
          has_state := True\<rparr>"

definition setWayPoints :: "LOS \<Rightarrow> real \<Rightarrow> real \<Rightarrow> real \<Rightarrow> real \<Rightarrow> LOS" where
  "setWayPoints self x_k' y_k' x_kp1' y_kp1' =
     self\<lparr>x_k := x_k', y_k := y_k', x_kp1 := x_kp1', y_kp1 := y_kp1'\<rparr>"

definition distance :: "LOS \<Rightarrow> real" where
  "distance self = sqrt ((x_kp1 self - x self)\<^sup>2 + (y_kp1 self - y self)\<^sup>2)"

definition sphereOfAcceptance :: "LOS \<Rightarrow> bool" where
  "sphereOfAcceptance self = (distance self < R self)"

definition getEpsilonVector :: "LOS \<Rightarrow> vec2" where
  "getEpsilonVector self =
     (let alpha' = alpha self;
          Rm = ((cos alpha', - sin alpha'), (sin alpha', cos alpha'));
          R_T = np_transpose Rm;
          p_t = (x self, y self);
          p_k = (x_k self, y_k self);
          epsilon = np_dot R_T (vec_sub p_t p_k)
      in epsilon)"

definition lookaheadBasedSteering :: "LOS \<Rightarrow> LOS \<times> npfloat" where
  "lookaheadBasedSteering self0 =
     (let self1 = self0\<lparr>y_delta := y_kp1 self0 - y_k self0\<rparr>;
          self2 = self1\<lparr>x_delta := x_kp1 self1 - x_k self1\<rparr>;
          self3 = self2\<lparr>alpha := arctan2 (y_delta self2) (x_delta self2)\<rparr>;
          epsilon = getEpsilonVector self3;
          self4 = self3\<lparr>s := fst epsilon\<rparr>;
          self5 = self4\<lparr>e := snd epsilon\<rparr>;
          self6 = self5\<lparr>chi_p := alpha self5\<rparr>;
          self7 = self6\<lparr>chi_r := np_arctan (np_truediv (- e self6) (delta self6))\<rparr>;
          self8 = self7\<lparr>chi_d := np_add (Finite (chi_p self7)) (chi_r self7)\<rparr>
      in (self8, chi_d self8))"

section \<open>The class LosPathFollowing\<close>

text \<open>
  The filter class \<open>ReferenceModel\<close> lives in another package
  (\<open>reference_model.discrete_tustin\<close>). Its constructor (initial value and period) and
  its step \<open>discreteTustinMSD\<close>, which advances the filter's own state and returns the
  shaped trajectory \<open>x_d\<close>, are parameters of the model; \<open>'f\<close> is the type of the
  filter's internal state.
\<close>

record ReferenceTrajectory =
  u_d :: npfloat
  u_d_dot :: npfloat
  psi_d :: npfloat
  r_d :: npfloat
  r_d_dot :: npfloat

record 'f reference_model_class =
  ReferenceModel :: "vec2 \<Rightarrow> real \<Rightarrow> 'f"
  discreteTustinMSD :: "'f \<Rightarrow> real \<times> npfloat \<Rightarrow> 'f \<times> ReferenceTrajectory"

text \<open>
  An odometry sample, with the fields that \<open>callback\<close> reads; \<open>yaw\<close> is the angle that
  \<open>quat2euler\<close> obtains from the orientation quaternion of the message.
\<close>

record Odometry =
  position_x :: real
  position_y :: real
  position_z :: real
  linear_x :: real
  linear_y :: real
  linear_z :: real
  yaw :: real
  angular_z :: real
  stamp :: real

text \<open>The goal that \<open>accept_new_goal\<close> hands to \<open>goalCB\<close>.\<close>

record LosPathFollowingGoal =
  next_waypoint_x :: real
  next_waypoint_y :: real
  forward_speed_linear_x :: real
  desired_depth_z :: real
  goal_sphereOfAcceptance :: real

text \<open>
  The node. \<open>flag\<close> is true while a goal is being pursued. The attributes \<open>psi\<close> and
  \<open>psi_ref\<close> are created by \<open>callback\<close>, the only caller of \<open>fixHeadingWrapping\<close>.
\<close>

record 'f LosPathFollowing =
  flag :: bool
  los :: LOS
  psi :: real
  psi_ref :: npfloat
  reference_model :: 'f

text \<open>
  What a method sends out, in order: the desired pose (heading, depth, surge speed and
  yaw rate of \<open>los_msg\<close>) and the calls on the action server. The thrust message is the
  output of the backstepping and depth controllers, which are other packages and write
  none of the fields above; it is left out.
\<close>

datatype event =
  pub_desired npfloat real npfloat npfloat
| publish_feedback real
| set_succeeded
| set_preempted

datatype error = AttributeError

definition fixHeadingWrapping ::
  "'f reference_model_class \<Rightarrow> 'f LosPathFollowing \<Rightarrow> 'f LosPathFollowing \<times> ReferenceTrajectory" where
  "fixHeadingWrapping rm self0 =
     (let e1 = np_sub (Finite (psi self0)) (psi_ref self0);
          self1 = (if np_less e1 (Finite (- pi))
                   then self0\<lparr>psi_ref := np_sub (psi_ref self0) (Finite (2 * pi))\<rparr>
                   else self0);
          self2 = (if np_less (Finite pi) e1
                   then self1\<lparr>psi_ref := np_add (psi_ref self1) (Finite (2 * pi))\<rparr>
                   else self1);
          step1 = discreteTustinMSD rm (reference_model self2) (speed (los self2), psi_ref self2);
          self3 = self2\<lparr>reference_model := fst step1\<rparr>;
          x_d1 = snd step1;
          psi_d1 = psi_d x_d1;
          e2 = np_sub (Finite (psi self3)) psi_d1;
          branch1 =
            (if np_less (Finite pi) e2
             then (let psi_d2 = np_sub psi_d1 (Finite (2 * pi));
                       fresh = ReferenceModel rm (u (los self3), LOS.psi (los self3)) LOS_h;
                       step2 = discreteTustinMSD rm fresh (speed (los self3), psi_d2)
                   in (self3\<lparr>reference_model := fst step2\<rparr>, psi_d2, snd step2))
             else (self3, psi_d1, x_d1));
          self4 = fst branch1;
          psi_d3 = fst (snd branch1);
          x_d3 = snd (snd branch1);
          branch2 =
            (if np_less e2 (Finite (- pi))
             then (let psi_d4 = np_add psi_d3 (Finite (2 * pi));
                       fresh = ReferenceModel rm (u (los self4), LOS.psi (los self4)) LOS_h;
                       step3 = discreteTustinMSD rm fresh (speed (los self4), psi_d4)
                   in (self4\<lparr>reference_model := fst step3\<rparr>, snd step3))
             else (self4, x_d3))
      in branch2)"

definition statusActionGoal :: "'f LosPathFollowing \<Rightarrow> 'f LosPathFollowing \<times> event list" where
  "statusActionGoal self0 =
     (let feedback = publish_feedback (distance (los self0))
      in if sphereOfAcceptance (los self0)
         then (self0\<lparr>flag := False\<rparr>, [feedback, set_succeeded])
         else (self0, [feedback]))"

text \<open>
  The first statements of \<open>callback\<close>, up to and including the assignment of
  \<open>self.psi_ref\<close>: they run on every sample, whether or not a goal is active.
\<close>

definition callback_update :: "'f LosPathFollowing \<Rightarrow> Odometry \<Rightarrow> 'f LosPathFollowing" where
  "callback_update self0 msg =
     (let self1 = self0\<lparr>psi := yaw msg\<rparr>;
          self2 = self1\<lparr>los := updateState (los self1)
                    (position_x msg) (position_y msg) (position_z msg)
                    (linear_x msg) (linear_y msg) (linear_z msg)
                    (psi self1) (angular_z msg) (stamp msg)\<rparr>;
          steering = lookaheadBasedSteering (los self2)
      in self2\<lparr>los := fst steering, psi_ref := snd steering\<rparr>)"

definition callback ::
  "'f reference_model_class \<Rightarrow> 'f LosPathFollowing \<Rightarrow> Odometry \<Rightarrow> 'f LosPathFollowing \<times> event list" where
  "callback rm self0 msg =
     (let self3 = callback_update self0 msg
      in if flag self3
         then (let shaped = fixHeadingWrapping rm self3;
                   self4 = fst shaped;
                   x_d' = snd shaped;
                   los_msg = pub_desired (psi_d x_d') (position_z msg) (u_d x_d') (r_d x_d');
                   status = statusActionGoal self4
               in (fst status, los_msg # snd status))
         else (self3, []))"

text \<open>\<open>requested\<close> is the answer of \<open>is_preempt_requested\<close>.\<close>

definition preemptCB :: "'f LosPathFollowing \<Rightarrow> bool \<Rightarrow> 'f LosPathFollowing \<times> event list" where
  "preemptCB self0 requested =
     (if requested then (self0\<lparr>flag := False\<rparr>, [set_preempted]) else (self0, []))"

text \<open>
  \<open>goalCB\<close> returns the node as the method leaves it and, when the method raises, the
  exception: the last statement reads \<open>self.los.psi\<close>, which does not exist before the
  first odometry sample. Every assignment before it has taken effect by then.
\<close>

definition goalCB ::
  "'f reference_model_class \<Rightarrow> 'f LosPathFollowing \<Rightarrow> LosPathFollowingGoal
     \<Rightarrow> 'f LosPathFollowing \<times> error option" where
  "goalCB rm self0 goal =
     (let self1 = self0\<lparr>flag := True\<rparr>;
          l1 = (los self1)\<lparr>x_k := x (los self1)\<rparr>;
          l2 = l1\<lparr>y_k := y l1\<rparr>;
          l3 = l2\<lparr>x_kp1 := next_waypoint_x goal\<rparr>;
          l4 = l3\<lparr>y_kp1 := next_waypoint_y goal\<rparr>;
          l5 = l4\<lparr>speed := forward_speed_linear_x goal\<rparr>;
          l6 = l5\<lparr>z_d := desired_depth_z goal\<rparr>;
          l7 = l6\<lparr>R := goal_sphereOfAcceptance goal\<rparr>;
          self2 = self1\<lparr>los := l7\<rparr>
      in if has_state (los self2)
         then (self2\<lparr>reference_model :=
                        ReferenceModel rm (u (los self2), LOS.psi (los self2)) LOS_h\<rparr>, None)
         else (self2, Some AttributeError))"

text \<open>
  \<open>config_callback\<close> stores the look-ahead distance of the new configuration; the gains
  go to the autopilot.
\<close>

definition config_callback :: "'f LosPathFollowing \<Rightarrow> real \<Rightarrow> 'f LosPathFollowing" where
  "config_callback self0 config_delta = self0\<lparr>los := (los self0)\<lparr>delta := config_delta\<rparr>\<rparr>"

text \<open>
  For evaluating the node on concrete inputs the filter parameter is instantiated by a
  unit delay: its state is the last command (initially the value it was constructed
  with), and a step returns the stored command as the trajectory and stores the new one.
\<close>

definition unit_delay :: "(real \<times> npfloat) reference_model_class" where
  "unit_delay =
     \<lparr>ReferenceModel = (\<lambda>x0 h'. (fst x0, Finite (snd x0))),
      discreteTustinMSD = (\<lambda>f cmd.
         (cmd, \<lparr>u_d = Finite (fst f), u_d_dot = Finite 0, psi_d = snd f,
                r_d = Finite 0, r_d_dot = Finite 0\<rparr>))\<rparr>"

section \<open>Initial state and sample inputs\<close>

text \<open>
  The objects as the constructors leave them (the look-ahead distance is \<open>1.0 * 0.7\<close>, the
  radius \<open>0.5\<close>). The attributes that do not exist yet hold zero; \<open>has_state\<close> is false.
\<close>

definition LOS_init :: LOS where
  "LOS_init =
     \<lparr>u = 0, x = 0, y = 0, z = 0, x_k = 0, y_k = 0, x_kp1 = 0, y_kp1 = 0, z_d = 0,
      speed = 0, R = 1 / 2, delta = 7 / 10, has_state = False,
      u_dot = 0, v = 0, w = 0, psi = 0, r = 0, t = 0,
      y_delta = 0, x_delta = 0, alpha = 0, s = 0, e = 0, chi_p = 0,
      chi_r = Finite 0, chi_d = Finite 0\<rparr>"

definition LosPathFollowing_init :: "'f reference_model_class \<Rightarrow> 'f LosPathFollowing" where
  "LosPathFollowing_init rm =
     \<lparr>flag = False, los = LOS_init, psi = 0, psi_ref = Finite 0,
      reference_model = ReferenceModel rm (0, 0) LOS_h\<rparr>"

text \<open>
  A run of the node: a first sample at the origin with heading 1 rad, then a goal 10 m to
  the east, then the same sample again while the goal is active, then a sample one metre
  off the track.
\<close>

definition odom_yaw_1 :: Odometry where
  "odom_yaw_1 =
     \<lparr>position_x = 0, position_y = 0, position_z = 0,
      linear_x = 0, linear_y = 0, linear_z = 0,
      yaw = 1, angular_z = 0, stamp = 0\<rparr>"

definition odom_off_track :: Odometry where
  "odom_off_track =
     \<lparr>position_x = 0, position_y = 1, position_z = 0,
      linear_x = 0, linear_y = 0, linear_z = 0,
      yaw = 0, angular_z = 0, stamp = 1\<rparr>"

definition goal_east :: LosPathFollowingGoal where
  "goal_east =
     \<lparr>next_waypoint_x = 10, next_waypoint_y = 0, forward_speed_linear_x = 1,
      desired_depth_z = 0, goal_sphereOfAcceptance = 1 / 2\<rparr>"

text \<open>A goal whose next waypoint is the origin, where the vehicle is.\<close>

definition goal_here :: LosPathFollowingGoal where
  "goal_here =
     \<lparr>next_waypoint_x = 0, next_waypoint_y = 0, forward_speed_linear_x = 1,
      desired_depth_z = 0, goal_sphereOfAcceptance = 2\<rparr>"

definition node_sampled :: "(real \<times> npfloat) LosPathFollowing" where
  "node_sampled = fst (callback unit_delay (LosPathFollowing_init unit_delay) odom_yaw_1)"

definition node_active :: "(real \<times> npfloat) LosPathFollowing" where
  "node_active = fst (goalCB unit_delay node_sampled goal_east)"

definition node_tick1 :: "(real \<times> npfloat) LosPathFollowing" where
  "node_tick1 = fst (callback unit_delay node_active odom_yaw_1)"

text \<open>
  The active node with a chosen measured heading, reference heading and heading stored
  in the filter.
\<close>

definition node_wrap :: "real \<Rightarrow> real \<Rightarrow> real \<Rightarrow> (real \<times> npfloat) LosPathFollowing" where
  "node_wrap heading ref stored =
     node_active\<lparr>psi := heading, psi_ref := Finite ref, reference_model := (1, Finite stored)\<rparr>"

section \<open>The specification's formulas\<close>

text \<open>
  The steering law in the words of the specification: the path-tangential angle, the
  cross-track component of the position relative to the previous waypoint under the rows
  \<open>[cos \<alpha>, sin \<alpha>; -sin \<alpha>, cos \<alpha>]\<close>, and the desired heading \<open>\<alpha> + atan (-e / \<delta>)\<close>.
\<close>

definition spec_alpha :: "vec2 \<Rightarrow> vec2 \<Rightarrow> real" where
  "spec_alpha prev nxt = arctan2 (snd nxt - snd prev) (fst nxt - fst prev)"

definition spec_crossTrack :: "vec2 \<Rightarrow> vec2 \<Rightarrow> vec2 \<Rightarrow> real" where
  "spec_crossTrack pos prev nxt =
     - sin (spec_alpha prev nxt) * (fst pos - fst prev)
     + cos (spec_alpha prev nxt) * (snd pos - snd prev)"

definition spec_desiredHeading :: "vec2 \<Rightarrow> vec2 \<Rightarrow> vec2 \<Rightarrow> real \<Rightarrow> real" where
  "spec_desiredHeading pos prev nxt dl =
     spec_alpha prev nxt + arctan (- spec_crossTrack pos prev nxt / dl)"

text \<open>
  The reset of the specification's post-filter check: discard the filter's state,
  re-initialise it to the vehicle's current speed and heading, and run it once on the
  commanded speed and the given target heading.
\<close>

definition spec_reset_and_rerun ::
  "'f reference_model_class \<Rightarrow> 'f LosPathFollowing \<Rightarrow> npfloat
     \<Rightarrow> 'f LosPathFollowing \<times> ReferenceTrajectory" where
  "spec_reset_and_rerun rm node target =
     (let fresh = ReferenceModel rm (u (los node), LOS.psi (los node)) LOS_h;
          rerun = discreteTustinMSD rm fresh (speed (los node), target)
      in (node\<lparr>reference_model := fst rerun\<rparr>, snd rerun))"

text \<open>The reference heading after the first two tests of \<open>fixHeadingWrapping\<close>.\<close>

definition wrap_psi_ref :: "real \<Rightarrow> npfloat \<Rightarrow> npfloat" where
  "wrap_psi_ref p pr =
     (if np_less (np_sub (Finite p) pr) (Finite (- pi)) then np_sub pr (Finite (2 * pi))
      else if np_less (Finite pi) (np_sub (Finite p) pr) then np_add pr (Finite (2 * pi))
      else pr)"

section \<open>Auxiliary facts\<close>

subsection \<open>The model of \<open>arctan2\<close>\<close>

text \<open>
  \<open>arctan2 b a\<close> is the angle of the point \<open>(a, b)\<close> in \<open>(-\<pi>, \<pi>]\<close>, which is what
  \<open>np.arctan2\<close> computes.
\<close>

lemma arctan2_range: "- pi < arctan2 b a \<and> arctan2 b a \<le> pi"
proof -
  have lo: "- (pi / 2) < arctan (b / a)" and hi: "arctan (b / a) < pi / 2"
    by (rule arctan_lbound, rule arctan_ubound)
  have neg: "arctan (b / a) \<le> 0" if "a < 0" "0 \<le> b"
    using that by (simp add: divide_nonneg_neg)
  have pos: "0 < arctan (b / a)" if "a < 0" "b < 0"
    using that by (simp add: divide_neg_neg)
  show ?thesis
    using lo hi neg pos pi_gt_zero
    unfolding arctan2_def
    by (auto simp del: pi_gt_zero)
qed

lemma sqrt_sum_squares_factor:
  assumes "a \<noteq> 0"
  shows "sqrt (a\<^sup>2 + b\<^sup>2) = \<bar>a\<bar> * sqrt (1 + (b / a)\<^sup>2)"
proof -
  have "a\<^sup>2 + b\<^sup>2 = a\<^sup>2 * (1 + (b / a)\<^sup>2)"
    using assms by (simp add: field_simps power2_eq_square)
  then show ?thesis
    by (simp add: real_sqrt_mult)
qed

lemma arctan2_polar:
  assumes "a \<noteq> 0 \<or> b \<noteq> 0"
  shows "sqrt (a\<^sup>2 + b\<^sup>2) * cos (arctan2 b a) = a"
    and "sqrt (a\<^sup>2 + b\<^sup>2) * sin (arctan2 b a) = b"
proof -
  have nz: "sqrt (1 + (b / a)\<^sup>2) \<noteq> 0"
    by (metis add_nonneg_eq_0_iff real_sqrt_eq_zero_cancel_iff zero_le_power2 zero_neq_one
          zero_le_one)
  have c: "sqrt (a\<^sup>2 + b\<^sup>2) * cos (arctan (b / a)) = \<bar>a\<bar>" if "a \<noteq> 0"
    using that nz by (simp add: sqrt_sum_squares_factor cos_arctan)
  have s: "sqrt (a\<^sup>2 + b\<^sup>2) * sin (arctan (b / a)) = \<bar>a\<bar> * (b / a)" if "a \<noteq> 0"
    using that nz by (simp add: sqrt_sum_squares_factor sin_arctan)
  show "sqrt (a\<^sup>2 + b\<^sup>2) * cos (arctan2 b a) = a"
    using assms c unfolding arctan2_def
    by (auto simp add: cos_add cos_diff not_less)
  show "sqrt (a\<^sup>2 + b\<^sup>2) * sin (arctan2 b a) = b"
    using assms s unfolding arctan2_def
    by (auto simp add: sin_add sin_diff not_less)
qed

lemma sqrt_25: "sqrt 25 = 5"
  using real_sqrt_abs [of 5] by simp

subsection \<open>What \<open>lookaheadBasedSteering\<close> stores\<close>

lemma lookaheadBasedSteering_fields:
  "alpha (fst (lookaheadBasedSteering self)) = spec_alpha (x_k self, y_k self) (x_kp1 self, y_kp1 self)"
  "e (fst (lookaheadBasedSteering self)) =
     spec_crossTrack (x self, y self) (x_k self, y_k self) (x_kp1 self, y_kp1 self)"
  "chi_p (fst (lookaheadBasedSteering self)) = spec_alpha (x_k self, y_k self) (x_kp1 self, y_kp1 self)"
  "chi_r (fst (lookaheadBasedSteering self)) =
     np_arctan (np_truediv
       (- spec_crossTrack (x self, y self) (x_k self, y_k self) (x_kp1 self, y_kp1 self))
       (delta self))"
  "chi_d (fst (lookaheadBasedSteering self)) =
     np_add (Finite (spec_alpha (x_k self, y_k self) (x_kp1 self, y_kp1 self)))
       (np_arctan (np_truediv
         (- spec_crossTrack (x self, y self) (x_k self, y_k self) (x_kp1 self, y_kp1 self))
         (delta self)))"
  "snd (lookaheadBasedSteering self) = chi_d (fst (lookaheadBasedSteering self))"
  by (simp_all add: lookaheadBasedSteering_def getEpsilonVector_def np_transpose_def np_dot_def
        vec_sub_def spec_alpha_def spec_crossTrack_def Let_def)

lemma lookaheadBasedSteering_kept:
  "x (fst (lookaheadBasedSteering self)) = x self"
  "y (fst (lookaheadBasedSteering self)) = y self"
  "x_k (fst (lookaheadBasedSteering self)) = x_k self"
  "y_k (fst (lookaheadBasedSteering self)) = y_k self"
  "x_kp1 (fst (lookaheadBasedSteering self)) = x_kp1 self"
  "y_kp1 (fst (lookaheadBasedSteering self)) = y_kp1 self"
  "delta (fst (lookaheadBasedSteering self)) = delta self"
  "R (fst (lookaheadBasedSteering self)) = R self"
  "speed (fst (lookaheadBasedSteering self)) = speed self"
  "u (fst (lookaheadBasedSteering self)) = u self"
  "LOS.psi (fst (lookaheadBasedSteering self)) = LOS.psi self"
  "has_state (fst (lookaheadBasedSteering self)) = has_state self"
  by (simp_all add: lookaheadBasedSteering_def Let_def)

subsection \<open>The shape of \<open>fixHeadingWrapping\<close>\<close>

lemma np_less_exclusive: "\<not> (np_less a (Finite (- pi)) \<and> np_less (Finite pi) a)"
proof (cases a)
  case (Finite b)
  show ?thesis using Finite pi_gt_zero by (auto simp del: pi_gt_zero)
qed auto

lemma fixHeadingWrapping_cases:
  "fixHeadingWrapping rm node =
     (let node2 = node\<lparr>psi_ref := wrap_psi_ref (psi node) (psi_ref node)\<rparr>;
          step1 = discreteTustinMSD rm (reference_model node) (speed (los node), psi_ref node2);
          e2 = np_sub (Finite (psi node)) (psi_d (snd step1))
      in if np_less (Finite pi) e2
         then spec_reset_and_rerun rm node2 (np_sub (psi_d (snd step1)) (Finite (2 * pi)))
         else if np_less e2 (Finite (- pi))
         then spec_reset_and_rerun rm node2 (np_add (psi_d (snd step1)) (Finite (2 * pi)))
         else (node2\<lparr>reference_model := fst step1\<rparr>, snd step1))"
proof -
  let ?e1 = "np_sub (Finite (psi node)) (psi_ref node)"
  let ?e2 = "np_sub (Finite (psi node))
      (psi_d (snd (discreteTustinMSD rm (reference_model node)
         (speed (los node), wrap_psi_ref (psi node) (psi_ref node)))))"
  have excl1: "\<not> (np_less ?e1 (Finite (- pi)) \<and> np_less (Finite pi) ?e1)"
    by (rule np_less_exclusive)
  have excl2: "\<not> (np_less ?e2 (Finite (- pi)) \<and> np_less (Finite pi) ?e2)"
    by (rule np_less_exclusive)
  show ?thesis
    using excl1 excl2
    unfolding fixHeadingWrapping_def wrap_psi_ref_def spec_reset_and_rerun_def Let_def
    by (cases "np_less ?e1 (Finite (- pi))"; cases "np_less (Finite pi) ?e1";
        cases "np_less ?e2 (Finite (- pi))"; cases "np_less (Finite pi) ?e2";
        simp add: wrap_psi_ref_def)
qed

lemma fixHeadingWrapping_psi_ref:
  "psi_ref (fst (fixHeadingWrapping rm node)) = wrap_psi_ref (psi node) (psi_ref node)"
  by (simp add: fixHeadingWrapping_cases Let_def spec_reset_and_rerun_def)

lemma fixHeadingWrapping_kept:
  "psi (fst (fixHeadingWrapping rm node)) = psi node"
  "los (fst (fixHeadingWrapping rm node)) = los node"
  "flag (fst (fixHeadingWrapping rm node)) = flag node"
  by (simp_all add: fixHeadingWrapping_cases Let_def spec_reset_and_rerun_def)

lemma wrap_psi_ref_Finite:
  "wrap_psi_ref p (Finite a) =
     (if p - a < - pi then Finite (a - 2 * pi)
      else if pi < p - a then Finite (a + 2 * pi)
      else Finite a)"
  by (simp add: wrap_psi_ref_def np_sub_def)

subsection \<open>The sample run\<close>

lemma node_sampled_fields:
  "x (los node_sampled) = 0" "y (los node_sampled) = 0" "has_state (los node_sampled)"
  "\<not> flag node_sampled" "R (los node_sampled) = 1 / 2" "u (los node_sampled) = 0"
  "LOS.psi (los node_sampled) = 1" "x_kp1 (los node_sampled) = 0" "y_kp1 (los node_sampled) = 0"
  by (simp_all add: node_sampled_def callback_def callback_update_def
        updateState_def Let_def lookaheadBasedSteering_kept LosPathFollowing_init_def
        LOS_init_def odom_yaw_1_def)

lemma node_active_los:
  "u (los node_active) = 0" "LOS.psi (los node_active) = 1" "speed (los node_active) = 1"
  "flag node_active"
  by (simp_all add: node_active_def node_sampled_def goalCB_def callback_def callback_update_def
        updateState_def Let_def lookaheadBasedSteering_kept LosPathFollowing_init_def
        LOS_init_def odom_yaw_1_def goal_east_def)

lemma node_active_fields:
  "x_k (los node_active) = 0" "y_k (los node_active) = 0"
  "x_kp1 (los node_active) = 10" "y_kp1 (los node_active) = 0"
  "delta (los node_active) = 7 / 10" "R (los node_active) = 1 / 2"
  "reference_model node_active = (0, Finite 1)"
  by (simp_all add: node_active_def goalCB_def Let_def node_sampled_fields goal_east_def
        unit_delay_def)
     (simp_all add: node_sampled_def callback_def callback_update_def
        updateState_def Let_def lookaheadBasedSteering_kept LosPathFollowing_init_def
        LOS_init_def odom_yaw_1_def)

lemma node_active_steering:
  "e (los node_active) = 0" "chi_d (los node_active) = Finite 0" "psi_ref node_active = Finite 0"
  by (simp_all add: node_active_def goalCB_def Let_def node_sampled_fields goal_east_def
        unit_delay_def)
     (simp_all add: node_sampled_def callback_def callback_update_def
        updateState_def Let_def lookaheadBasedSteering_kept lookaheadBasedSteering_fields
        LosPathFollowing_init_def LOS_init_def odom_yaw_1_def spec_alpha_def
        spec_crossTrack_def arctan2_def np_truediv_def)

lemma callback_update_east:
  assumes "x_k (los node) = 0" "y_k (los node) = 0" "x_kp1 (los node) = 10" "y_kp1 (los node) = 0"
    "delta (los node) = 7 / 10"
  shows "psi_ref (callback_update node odom_yaw_1) = Finite 0"
    and "psi (callback_update node odom_yaw_1) = 1"
    and "flag (callback_update node odom_yaw_1) = flag node"
    and "reference_model (callback_update node odom_yaw_1) = reference_model node"
    and "speed (los (callback_update node odom_yaw_1)) = speed (los node)"
    and "x (los (callback_update node odom_yaw_1)) = 0"
    and "y (los (callback_update node odom_yaw_1)) = 0"
    and "x_k (los (callback_update node odom_yaw_1)) = 0"
    and "y_k (los (callback_update node odom_yaw_1)) = 0"
    and "x_kp1 (los (callback_update node odom_yaw_1)) = 10"
    and "y_kp1 (los (callback_update node odom_yaw_1)) = 0"
    and "delta (los (callback_update node odom_yaw_1)) = 7 / 10"
    and "R (los (callback_update node odom_yaw_1)) = R (los node)"
  using assms
  by (simp_all add: callback_update_def Let_def lookaheadBasedSteering_fields
        lookaheadBasedSteering_kept updateState_def odom_yaw_1_def spec_alpha_def
        spec_crossTrack_def arctan2_def np_truediv_def)

lemma node_tick1_fields:
  "flag node_tick1" "psi_ref node_tick1 = Finite 0"
  "x_k (los node_tick1) = 0" "y_k (los node_tick1) = 0"
  "x_kp1 (los node_tick1) = 10" "y_kp1 (los node_tick1) = 0"
  "delta (los node_tick1) = 7 / 10" "R (los node_tick1) = 1 / 2"
proof -
  note cu = callback_update_east [OF node_active_fields(1-5)]
  have w: "wrap_psi_ref 1 (Finite 0) = Finite 0"
    using pi_ge_two by (simp add: wrap_psi_ref_Finite)
  have fw: "fixHeadingWrapping unit_delay (callback_update node_active odom_yaw_1)
      = ((callback_update node_active odom_yaw_1)
           \<lparr>psi_ref := Finite 0, reference_model := (1, Finite 0)\<rparr>,
         \<lparr>u_d = Finite 0, u_d_dot = Finite 0, psi_d = Finite 1, r_d = Finite 0, r_d_dot = Finite 0\<rparr>)"
    by (simp add: fixHeadingWrapping_cases cu w node_active_fields node_active_los Let_def
          unit_delay_def np_sub_def)
  have st: "node_tick1 = (callback_update node_active odom_yaw_1)
           \<lparr>psi_ref := Finite 0, reference_model := (1, Finite 0)\<rparr>"
    by (simp add: node_tick1_def callback_def Let_def cu node_active_los fw statusActionGoal_def
          sphereOfAcceptance_def distance_def node_active_fields)
  show "flag node_tick1" "psi_ref node_tick1 = Finite 0"
    "x_k (los node_tick1) = 0" "y_k (los node_tick1) = 0"
    "x_kp1 (los node_tick1) = 10" "y_kp1 (los node_tick1) = 0"
    "delta (los node_tick1) = 7 / 10" "R (los node_tick1) = 1 / 2"
    by (simp_all add: st cu node_active_los node_active_fields)
qed

lemma callback_update_off_track:
  assumes "x_k (los node) = 0" "y_k (los node) = 0" "x_kp1 (los node) = 10" "y_kp1 (los node) = 0"
    "delta (los node) = 7 / 10"
  shows "psi_ref (callback_update node odom_off_track) = Finite (arctan (- 1 / (7 / 10)))"
    and "psi (callback_update node odom_off_track) = 0"
    and "flag (callback_update node odom_off_track) = flag node"
    and "x (los (callback_update node odom_off_track)) = 0"
    and "y (los (callback_update node odom_off_track)) = 1"
    and "x_kp1 (los (callback_update node odom_off_track)) = 10"
    and "y_kp1 (los (callback_update node odom_off_track)) = 0"
    and "R (los (callback_update node odom_off_track)) = R (los node)"
proof -
  have nz: "delta (los node) \<noteq> 0"
    by (simp add: assms(5))
  have "psi_ref (callback_update node odom_off_track) = Finite (arctan (- 1 / delta (los node)))"
    using assms(1-4) nz
    by (simp add: callback_update_def Let_def lookaheadBasedSteering_fields
          lookaheadBasedSteering_kept updateState_def odom_off_track_def spec_alpha_def
          spec_crossTrack_def arctan2_def np_truediv_def)
  then show "psi_ref (callback_update node odom_off_track) = Finite (arctan (- 1 / (7 / 10)))"
    by (simp only: assms(5))
  show "psi (callback_update node odom_off_track) = 0"
    and "flag (callback_update node odom_off_track) = flag node"
    and "x (los (callback_update node odom_off_track)) = 0"
    and "y (los (callback_update node odom_off_track)) = 1"
    and "x_kp1 (los (callback_update node odom_off_track)) = 10"
    and "y_kp1 (los (callback_update node odom_off_track)) = 0"
    and "R (los (callback_update node odom_off_track)) = R (los node)"
    using assms(1-4)
    by (simp_all add: callback_update_def Let_def lookaheadBasedSteering_kept updateState_def
          odom_off_track_def)
qed

lemma sqrt_101_ge_half: "1 / 2 \<le> sqrt 101"
  using real_le_rsqrt [of "1 / 2" 101] by (simp add: power2_eq_square)

lemma node_tick2_flag: "flag (fst (callback unit_delay node_tick1 odom_off_track))"
proof -
  note cu = callback_update_off_track [OF node_tick1_fields(3-7)]
  have far: "\<not> sphereOfAcceptance (los (callback_update node_tick1 odom_off_track))"
    using sqrt_101_ge_half
    by (simp add: sphereOfAcceptance_def distance_def cu node_tick1_fields)
  show ?thesis
    using far
    by (simp add: callback_def Let_def cu node_tick1_fields statusActionGoal_def
          fixHeadingWrapping_kept)
qed

section \<open>Goal acceptance\<close>

text \<open>
  C1, as the code has it. \<open>goalCB\<close> has no validation: it accepts every goal, also one
  whose next waypoint equals the vehicle's current position. The flag is set (the goal is
  active), the previous waypoint becomes the current position and the next waypoint the
  goal's, speed, depth and radius are taken from the goal, and, once an odometry sample
  has been received, the filter is re-initialised to the vehicle's current surge speed
  and heading and no exception is raised. For a goal at the current position the stored
  segment is degenerate: previous and next waypoint coincide.
\<close>

theorem goalCB_accepts_every_goal:
  "flag (fst (goalCB rm node goal))
   \<and> x_k (los (fst (goalCB rm node goal))) = x (los node)
   \<and> y_k (los (fst (goalCB rm node goal))) = y (los node)
   \<and> x_kp1 (los (fst (goalCB rm node goal))) = next_waypoint_x goal
   \<and> y_kp1 (los (fst (goalCB rm node goal))) = next_waypoint_y goal
   \<and> speed (los (fst (goalCB rm node goal))) = forward_speed_linear_x goal
   \<and> z_d (los (fst (goalCB rm node goal))) = desired_depth_z goal
   \<and> R (los (fst (goalCB rm node goal))) = goal_sphereOfAcceptance goal
   \<and> (has_state (los node) \<longrightarrow>
        snd (goalCB rm node goal) = None
        \<and> reference_model (fst (goalCB rm node goal))
            = ReferenceModel rm (u (los node), LOS.psi (los node)) LOS_h)
   \<and> (next_waypoint_x goal = x (los node) \<and> next_waypoint_y goal = y (los node) \<longrightarrow>
        x_kp1 (los (fst (goalCB rm node goal))) = x_k (los (fst (goalCB rm node goal)))
        \<and> y_kp1 (los (fst (goalCB rm node goal))) = y_k (los (fst (goalCB rm node goal))))"
  by (simp add: goalCB_def Let_def)

theorem goalCB_accepts_every_goal_witness:
  "has_state (los node_sampled)
   \<and> next_waypoint_x goal_here = x (los node_sampled)
   \<and> next_waypoint_y goal_here = y (los node_sampled)
   \<and> flag (fst (goalCB unit_delay node_sampled goal_here))
   \<and> snd (goalCB unit_delay node_sampled goal_here) = None
   \<and> reference_model (fst (goalCB unit_delay node_sampled goal_here)) = (0, Finite 1)
   \<and> x_kp1 (los (fst (goalCB unit_delay node_sampled goal_here))) = 0
   \<and> x_k (los (fst (goalCB unit_delay node_sampled goal_here))) = 0"
  using goalCB_accepts_every_goal [where rm = unit_delay and node = node_sampled and goal = goal_here]
  by (simp add: node_sampled_fields goal_here_def unit_delay_def)

text \<open>
  The claim as stated fails: the idle node at the origin receives a goal whose next
  waypoint is the origin; the goal becomes active and the radius changes from 0.5 to 2.
\<close>

theorem goalCB_degenerate_counterexample:
  "next_waypoint_x goal_here = x (los node_sampled)
   \<and> next_waypoint_y goal_here = y (los node_sampled)
   \<and> \<not> flag node_sampled
   \<and> flag (fst (goalCB unit_delay node_sampled goal_here))
   \<and> snd (goalCB unit_delay node_sampled goal_here) = None
   \<and> R (los node_sampled) = 1 / 2
   \<and> R (los (fst (goalCB unit_delay node_sampled goal_here))) = 2
   \<and> fst (goalCB unit_delay node_sampled goal_here) \<noteq> node_sampled"
proof -
  have "flag (fst (goalCB unit_delay node_sampled goal_here))"
    by (simp add: goalCB_def Let_def)
  moreover have "\<not> flag node_sampled"
    by (rule node_sampled_fields)
  ultimately have "fst (goalCB unit_delay node_sampled goal_here) \<noteq> node_sampled"
    by metis
  then show ?thesis
    by (simp add: goalCB_def Let_def node_sampled_fields goal_here_def)
qed

section \<open>The reference heading\<close>

text \<open>
  C2, as the code has it. With \<open>e = \<psi> - \<psi>_ref\<close> for a finite reference heading: if
  \<open>e < -\<pi>\<close> the reference heading is decremented by \<open>2\<pi>\<close>, and if \<open>e > \<pi>\<close> it is
  incremented by \<open>2\<pi>\<close>. Both moves bring the reference towards the measured heading.
\<close>

theorem fixHeadingWrapping_psi_ref_direction:
  "psi_ref node = Finite a \<Longrightarrow>
     (psi node - a < - pi \<longrightarrow> psi_ref (fst (fixHeadingWrapping rm node)) = Finite (a - 2 * pi))
     \<and> (pi < psi node - a \<longrightarrow> psi_ref (fst (fixHeadingWrapping rm node)) = Finite (a + 2 * pi))"
  using pi_gt_zero
  by (simp add: fixHeadingWrapping_psi_ref wrap_psi_ref_Finite del: pi_gt_zero)

theorem fixHeadingWrapping_psi_ref_direction_witness:
  "psi_ref (node_wrap 0 4 4) = Finite 4
   \<and> psi (node_wrap 0 4 4) - 4 < - pi
   \<and> psi_ref (fst (fixHeadingWrapping unit_delay (node_wrap 0 4 4))) = Finite (4 - 2 * pi)
   \<and> psi_ref (node_wrap 4 0 0) = Finite 0
   \<and> pi < psi (node_wrap 4 0 0) - 0
   \<and> psi_ref (fst (fixHeadingWrapping unit_delay (node_wrap 4 0 0))) = Finite (0 + 2 * pi)"
  using fixHeadingWrapping_psi_ref_direction
          [where node = "node_wrap 0 4 4" and a = 4 and rm = unit_delay]
        fixHeadingWrapping_psi_ref_direction
          [where node = "node_wrap 4 0 0" and a = 0 and rm = unit_delay]
        pi_less_4
  by (simp add: node_wrap_def)

text \<open>
  The claim as stated fails: with measured heading 0 and reference heading 4 the error is
  \<open>-4 < -\<pi>\<close>, and the reference becomes \<open>4 - 2\<pi>\<close>, not \<open>4 + 2\<pi>\<close>.
\<close>

theorem fixHeadingWrapping_increment_counterexample:
  "np_less (np_sub (Finite (psi (node_wrap 0 4 4))) (psi_ref (node_wrap 0 4 4))) (Finite (- pi))
   \<and> psi_ref (fst (fixHeadingWrapping unit_delay (node_wrap 0 4 4))) \<noteq> Finite (4 + 2 * pi)
   \<and> psi_ref (fst (fixHeadingWrapping unit_delay (node_wrap 0 4 4))) = Finite (4 - 2 * pi)"
  using pi_less_4 pi_gt_zero
  by (simp add: fixHeadingWrapping_psi_ref wrap_psi_ref_Finite np_sub_def node_wrap_def
        del: pi_gt_zero)

text \<open>
  C3, as the code has it. On every tick \<open>callback\<close> assigns to the reference heading the
  desired heading that \<open>lookaheadBasedSteering\<close> computes from that tick's sample, before
  the wrap correction runs. The reference heading that the previous tick left behind does
  not enter: neither the state before the correction nor the outcome of the whole tick
  depends on it. The corrected value is the filter command of the same tick only.
\<close>

theorem callback_psi_ref_recomputed:
  "callback_update (node\<lparr>psi_ref := a\<rparr>) msg = callback_update node msg
   \<and> callback rm (node\<lparr>psi_ref := a\<rparr>) msg = callback rm node msg
   \<and> psi_ref (callback_update node msg)
       = snd (lookaheadBasedSteering
           (updateState (los node) (position_x msg) (position_y msg) (position_z msg)
              (linear_x msg) (linear_y msg) (linear_z msg) (yaw msg) (angular_z msg) (stamp msg)))
   \<and> fst (callback rm node msg)
       = (if flag node
          then fst (statusActionGoal (fst (fixHeadingWrapping rm (callback_update node msg))))
          else callback_update node msg)"
proof -
  have upd: "callback_update (node\<lparr>psi_ref := a\<rparr>) msg = callback_update node msg"
    by (simp add: callback_update_def Let_def)
  have fl: "flag (callback_update node msg) = flag node"
    by (simp add: callback_update_def Let_def)
  show ?thesis
    by (simp add: upd callback_def [of rm "node\<lparr>psi_ref := a\<rparr>"] callback_def [of rm node]
          fl Let_def)
       (simp add: callback_update_def Let_def)
qed

text \<open>
  The claim as stated fails on the sample run, with headings that the odometry can
  deliver. The goal is active before the first tick, after it and after the second. The
  first tick, at the origin, leaves the reference heading 0; the second tick, one metre
  off the track, enters its wrap correction with \<open>atan (-1 / 0.7)\<close>, not with 0.
\<close>

theorem callback_psi_ref_persists_counterexample:
  "flag node_active \<and> flag node_tick1
   \<and> flag (fst (callback unit_delay node_tick1 odom_off_track))
   \<and> psi_ref node_tick1 = Finite 0
   \<and> psi_ref (callback_update node_tick1 odom_off_track) = Finite (arctan (- 1 / (7 / 10)))
   \<and> psi_ref (callback_update node_tick1 odom_off_track) \<noteq> psi_ref node_tick1"
  by (simp add: node_active_los node_tick1_fields node_tick2_flag
        callback_update_off_track [OF node_tick1_fields(3-7)])

section \<open>The steering law\<close>

text \<open>
  C4, as the code has it. There is no guard on the look-ahead distance. When it is 0 the
  guidance computation is still performed and its results are stored: the path angle and
  the cross-track error as for any other value, and the desired heading, which is also
  returned, is \<open>\<alpha> - \<pi>/2\<close> for a positive cross-track error, \<open>\<alpha> + \<pi>/2\<close> for a negative
  one and NaN for a cross-track error of 0 (the numpy division yields an infinity or NaN
  and raises nothing).
\<close>

theorem lookaheadBasedSteering_delta_zero:
  "delta self = 0 \<Longrightarrow>
     snd (lookaheadBasedSteering self) =
       (if 0 < spec_crossTrack (x self, y self) (x_k self, y_k self) (x_kp1 self, y_kp1 self)
        then Finite (spec_alpha (x_k self, y_k self) (x_kp1 self, y_kp1 self) - pi / 2)
        else if spec_crossTrack (x self, y self) (x_k self, y_k self) (x_kp1 self, y_kp1 self) < 0
        then Finite (spec_alpha (x_k self, y_k self) (x_kp1 self, y_kp1 self) + pi / 2)
        else NaN)
     \<and> chi_d (fst (lookaheadBasedSteering self)) = snd (lookaheadBasedSteering self)
     \<and> alpha (fst (lookaheadBasedSteering self))
         = spec_alpha (x_k self, y_k self) (x_kp1 self, y_kp1 self)
     \<and> e (fst (lookaheadBasedSteering self))
         = spec_crossTrack (x self, y self) (x_k self, y_k self) (x_kp1 self, y_kp1 self)"
  by (simp add: lookaheadBasedSteering_fields np_truediv_def)

theorem lookaheadBasedSteering_delta_zero_witness:
  "delta (LOS_init\<lparr>x_kp1 := 10, y := 1, delta := 0\<rparr>) = 0
   \<and> snd (lookaheadBasedSteering (LOS_init\<lparr>x_kp1 := 10, y := 1, delta := 0\<rparr>)) = Finite (- (pi / 2))
   \<and> snd (lookaheadBasedSteering (LOS_init\<lparr>x_kp1 := 10, y := - 1, delta := 0\<rparr>)) = Finite (pi / 2)
   \<and> snd (lookaheadBasedSteering (LOS_init\<lparr>x_kp1 := 10, delta := 0\<rparr>)) = NaN"
  using lookaheadBasedSteering_delta_zero [of "LOS_init\<lparr>x_kp1 := 10, y := 1, delta := 0\<rparr>"]
    lookaheadBasedSteering_delta_zero [of "LOS_init\<lparr>x_kp1 := 10, y := - 1, delta := 0\<rparr>"]
    lookaheadBasedSteering_delta_zero [of "LOS_init\<lparr>x_kp1 := 10, delta := 0\<rparr>"]
  by (simp add: LOS_init_def spec_crossTrack_def spec_alpha_def arctan2_def)

text \<open>
  The claim as stated fails: the active node is configured with a look-ahead distance of
  0 and then receives a sample one metre off the track. The tick computes and stores a
  cross-track error of 1 and a desired heading of \<open>-\<pi>/2\<close>, where 0 and 0 were stored.
\<close>

theorem lookaheadBasedSteering_unguarded_counterexample:
  "delta (los (config_callback node_active 0)) = 0
   \<and> e (los (config_callback node_active 0)) = 0
   \<and> chi_d (los (config_callback node_active 0)) = Finite 0
   \<and> psi_ref (config_callback node_active 0) = Finite 0
   \<and> e (los (callback_update (config_callback node_active 0) odom_off_track)) = 1
   \<and> chi_d (los (callback_update (config_callback node_active 0) odom_off_track))
       = Finite (- (pi / 2))
   \<and> psi_ref (callback_update (config_callback node_active 0) odom_off_track)
       = Finite (- (pi / 2))"
  by (simp add: config_callback_def callback_update_def Let_def updateState_def
        lookaheadBasedSteering_fields node_active_fields node_active_steering odom_off_track_def
        spec_crossTrack_def spec_alpha_def arctan2_def np_truediv_def)

text \<open>
  C5. For every state with a positive look-ahead distance (the segment may be any, also
  a degenerate one) the desired heading that \<open>lookaheadBasedSteering\<close> returns and stores
  is \<open>\<alpha> + atan (-e / \<delta>)\<close>, with \<open>\<alpha>\<close> the \<open>atan2\<close> of the segment and \<open>e\<close> the cross-track
  component of the position relative to the previous waypoint. In particular, for the
  segment from (0,0) to (10,0), look-ahead distance 0.7 and a vehicle at \<open>(x, 1)\<close> for
  any \<open>x\<close>: \<open>\<alpha> = 0\<close>, \<open>e = 1\<close> and the desired heading is \<open>atan (-1 / 0.7)\<close>.
\<close>

theorem lookaheadBasedSteering_heading:
  "(0 < delta self \<longrightarrow>
      snd (lookaheadBasedSteering self) =
        Finite (spec_desiredHeading (x self, y self) (x_k self, y_k self)
                  (x_kp1 self, y_kp1 self) (delta self))
      \<and> chi_d (fst (lookaheadBasedSteering self)) = snd (lookaheadBasedSteering self)
      \<and> e (fst (lookaheadBasedSteering self))
          = spec_crossTrack (x self, y self) (x_k self, y_k self) (x_kp1 self, y_kp1 self))
   \<and> alpha (fst (lookaheadBasedSteering
        (self\<lparr>x_k := 0, y_k := 0, x_kp1 := 10, y_kp1 := 0, delta := 7 / 10, y := 1\<rparr>))) = 0
   \<and> e (fst (lookaheadBasedSteering
        (self\<lparr>x_k := 0, y_k := 0, x_kp1 := 10, y_kp1 := 0, delta := 7 / 10, y := 1\<rparr>))) = 1
   \<and> snd (lookaheadBasedSteering
        (self\<lparr>x_k := 0, y_k := 0, x_kp1 := 10, y_kp1 := 0, delta := 7 / 10, y := 1\<rparr>))
       = Finite (arctan (- 1 / (7 / 10)))"
  by (simp add: lookaheadBasedSteering_fields spec_desiredHeading_def np_truediv_def
        spec_crossTrack_def spec_alpha_def arctan2_def)

theorem lookaheadBasedSteering_heading_witness:
  "0 < delta (LOS_init\<lparr>x := 2, y := 3, x_kp1 := 0, y_kp1 := 5\<rparr>)
   \<and> e (fst (lookaheadBasedSteering (LOS_init\<lparr>x := 2, y := 3, x_kp1 := 0, y_kp1 := 5\<rparr>))) = - 2
   \<and> snd (lookaheadBasedSteering (LOS_init\<lparr>x := 2, y := 3, x_kp1 := 0, y_kp1 := 5\<rparr>))
       = Finite (pi / 2 + arctan (20 / 7))"
  using lookaheadBasedSteering_heading [of "LOS_init\<lparr>x := 2, y := 3, x_kp1 := 0, y_kp1 := 5\<rparr>"]
  by (simp add: LOS_init_def spec_desiredHeading_def spec_crossTrack_def spec_alpha_def arctan2_def)

section \<open>The post-filter check\<close>

text \<open>
  C6. Let \<open>e'\<close> be the measured heading minus the heading \<open>\<psi>_d\<close> of the raw filter
  output. If \<open>e' > \<pi>\<close>, the result is that of resetting the filter to the vehicle's
  current speed and heading and running it on the commanded speed and \<open>\<psi>_d - 2\<pi>\<close>; if
  \<open>e' < -\<pi>\<close>, the same with \<open>\<psi>_d + 2\<pi>\<close>; otherwise the raw filter output is returned
  and the filter keeps the state of the raw step. For a finite \<open>\<psi>_d\<close> the two tests
  are the comparisons of real numbers.
\<close>

theorem fixHeadingWrapping_post_filter:
  "let node2 = node\<lparr>psi_ref := psi_ref (fst (fixHeadingWrapping rm node))\<rparr>;
       raw = discreteTustinMSD rm (reference_model node) (speed (los node), psi_ref node2);
       e' = np_sub (Finite (psi node)) (psi_d (snd raw))
   in (np_less (Finite pi) e' \<longrightarrow>
         fixHeadingWrapping rm node
           = spec_reset_and_rerun rm node2 (np_sub (psi_d (snd raw)) (Finite (2 * pi))))
    \<and> (np_less e' (Finite (- pi)) \<longrightarrow>
         fixHeadingWrapping rm node
           = spec_reset_and_rerun rm node2 (np_add (psi_d (snd raw)) (Finite (2 * pi))))
    \<and> (\<not> np_less (Finite pi) e' \<and> \<not> np_less e' (Finite (- pi)) \<longrightarrow>
         fixHeadingWrapping rm node = (node2\<lparr>reference_model := fst raw\<rparr>, snd raw))
    \<and> (\<forall>d. psi_d (snd raw) = Finite d \<longrightarrow>
         (np_less (Finite pi) e' \<longleftrightarrow> pi < psi node - d)
         \<and> (np_less e' (Finite (- pi)) \<longleftrightarrow> psi node - d < - pi))"
proof -
  let ?e2 = "np_sub (Finite (psi node))
      (psi_d (snd (discreteTustinMSD rm (reference_model node)
         (speed (los node), wrap_psi_ref (psi node) (psi_ref node)))))"
  have excl2: "\<not> (np_less ?e2 (Finite (- pi)) \<and> np_less (Finite pi) ?e2)"
    by (rule np_less_exclusive)
  show ?thesis
    unfolding fixHeadingWrapping_psi_ref
    using excl2
    by (auto simp add: fixHeadingWrapping_cases Let_def np_sub_def)
qed

theorem fixHeadingWrapping_post_filter_witness:
  "np_less (Finite pi) (np_sub (Finite (psi (node_wrap 4 4 0))) (Finite 0))
   \<and> fixHeadingWrapping unit_delay (node_wrap 4 4 0)
       = spec_reset_and_rerun unit_delay (node_wrap 4 4 0) (Finite (0 - 2 * pi))
   \<and> reference_model (fst (fixHeadingWrapping unit_delay (node_wrap 4 4 0))) = (1, Finite (0 - 2 * pi))
   \<and> np_less (np_sub (Finite (psi (node_wrap 0 0 4))) (Finite 4)) (Finite (- pi))
   \<and> fixHeadingWrapping unit_delay (node_wrap 0 0 4)
       = spec_reset_and_rerun unit_delay (node_wrap 0 0 4) (Finite (4 + 2 * pi))
   \<and> fixHeadingWrapping unit_delay (node_wrap 1 1 1)
       = ((node_wrap 1 1 1)\<lparr>reference_model := (1, Finite 1)\<rparr>,
          \<lparr>u_d = Finite 1, u_d_dot = Finite 0, psi_d = Finite 1, r_d = Finite 0, r_d_dot = Finite 0\<rparr>)"
proof -
  have a: "wrap_psi_ref 4 (Finite 4) = Finite 4" "wrap_psi_ref 0 (Finite 0) = Finite 0"
    "wrap_psi_ref 1 (Finite 1) = Finite 1"
    by (simp_all add: wrap_psi_ref_Finite)
  show ?thesis
    using fixHeadingWrapping_post_filter [where rm = unit_delay and node = "node_wrap 4 4 0"]
      fixHeadingWrapping_post_filter [where rm = unit_delay and node = "node_wrap 0 0 4"]
      fixHeadingWrapping_post_filter [where rm = unit_delay and node = "node_wrap 1 1 1"]
      pi_less_4 pi_gt_zero
    by (simp add: Let_def fixHeadingWrapping_psi_ref node_wrap_def a unit_delay_def np_sub_def
          node_active_los spec_reset_and_rerun_def del: pi_gt_zero)
qed

section \<open>The arrival test\<close>

text \<open>
  C7. \<open>sphereOfAcceptance\<close> is true exactly when the Euclidean distance in the plane
  between the position and the next waypoint is strictly less than the radius: it is
  false when the distance equals the radius, and true when the distance is the radius
  less any positive amount.
\<close>

theorem sphereOfAcceptance_strict:
  "(sphereOfAcceptance self \<longleftrightarrow>
      sqrt ((x_kp1 self - x self)\<^sup>2 + (y_kp1 self - y self)\<^sup>2) < R self)
   \<and> (distance self = R self \<longrightarrow> \<not> sphereOfAcceptance self)
   \<and> (0 < eps \<and> distance self = R self - eps \<longrightarrow> sphereOfAcceptance self)"
  by (simp add: sphereOfAcceptance_def distance_def)

theorem sphereOfAcceptance_strict_witness:
  "distance (LOS_init\<lparr>x := 3, y := 4, z := 9, R := 5\<rparr>) = R (LOS_init\<lparr>x := 3, y := 4, z := 9, R := 5\<rparr>)
   \<and> \<not> sphereOfAcceptance (LOS_init\<lparr>x := 3, y := 4, z := 9, R := 5\<rparr>)
   \<and> (0::real) < 1
   \<and> distance (LOS_init\<lparr>x := 3, y := 4, z := 9, R := 6\<rparr>) = R (LOS_init\<lparr>x := 3, y := 4, z := 9, R := 6\<rparr>) - 1
   \<and> sphereOfAcceptance (LOS_init\<lparr>x := 3, y := 4, z := 9, R := 6\<rparr>)"
  using sphereOfAcceptance_strict [of "LOS_init\<lparr>x := 3, y := 4, z := 9, R := 5\<rparr>" 1]
    sphereOfAcceptance_strict [of "LOS_init\<lparr>x := 3, y := 4, z := 9, R := 6\<rparr>" 1]
  by (simp add: distance_def LOS_init_def sqrt_25)

section \<open>Idempotence and the single step\<close>

text \<open>
  C8. When the reference heading is finite and within \<open>\<pi>\<close> of the measured heading,
  neither of the two tests on the reference heading fires and the wrap correction leaves
  the reference heading unchanged; so does a second call with the same measured heading.
\<close>

theorem fixHeadingWrapping_idempotent:
  "psi_ref node = Finite a \<Longrightarrow> \<bar>psi node - a\<bar> \<le> pi \<Longrightarrow>
     \<not> np_less (np_sub (Finite (psi node)) (psi_ref node)) (Finite (- pi))
     \<and> \<not> np_less (Finite pi) (np_sub (Finite (psi node)) (psi_ref node))
     \<and> psi_ref (fst (fixHeadingWrapping rm node)) = psi_ref node
     \<and> psi_ref (fst (fixHeadingWrapping rm (fst (fixHeadingWrapping rm node)))) = psi_ref node"
proof -
  assume ref: "psi_ref node = Finite a" and near: "\<bar>psi node - a\<bar> \<le> pi"
  from near have no: "\<not> psi node - a < - pi" "\<not> pi < psi node - a"
    by linarith+
  then have once: "psi_ref (fst (fixHeadingWrapping rm node)) = psi_ref node"
    using ref by (simp add: fixHeadingWrapping_psi_ref wrap_psi_ref_Finite)
  have twice: "psi_ref (fst (fixHeadingWrapping rm (fst (fixHeadingWrapping rm node)))) = psi_ref node"
    using once
    by (simp add: fixHeadingWrapping_psi_ref [of rm "fst (fixHeadingWrapping rm node)"]
          fixHeadingWrapping_kept fixHeadingWrapping_psi_ref [of rm node, symmetric])
  show ?thesis
    using no once twice by (simp add: ref np_sub_def)
qed

theorem fixHeadingWrapping_idempotent_witness:
  "psi_ref (node_wrap 1 3 0) = Finite 3
   \<and> \<bar>psi (node_wrap 1 3 0) - 3\<bar> \<le> pi
   \<and> psi_ref (fst (fixHeadingWrapping unit_delay (node_wrap 1 3 0))) = Finite 3"
  using fixHeadingWrapping_idempotent [where node = "node_wrap 1 3 0" and a = 3 and rm = unit_delay]
        pi_ge_two
  by (simp add: node_wrap_def)

section \<open>The tracker\<close>

text \<open>
  C9. Every call of \<open>updateState\<close> stores the surge acceleration
  \<open>(u_new - u_previous) / h\<close> for the fixed period \<open>h = 0.05\<close> of the node; the time
  stamp of the call and the stored time stamp of the previous call do not enter it; and
  the position, the velocities, the heading, the yaw rate and the time stamp are
  overwritten with the arguments of the call, whatever was stored before.
\<close>

theorem updateState_overwrites:
  "u_dot (updateState self x' y' z' u' v' w' psi' r' time) = (u' - u self) / LOS_h
   \<and> LOS_h = 1 / 20
   \<and> u_dot (updateState self x' y' z' u' v' w' psi' r' time)
       = u_dot (updateState (self\<lparr>t := t0\<rparr>) x' y' z' u' v' w' psi' r' time')
   \<and> x (updateState self x' y' z' u' v' w' psi' r' time) = x'
   \<and> y (updateState self x' y' z' u' v' w' psi' r' time) = y'
   \<and> z (updateState self x' y' z' u' v' w' psi' r' time) = z'
   \<and> u (updateState self x' y' z' u' v' w' psi' r' time) = u'
   \<and> v (updateState self x' y' z' u' v' w' psi' r' time) = v'
   \<and> w (updateState self x' y' z' u' v' w' psi' r' time) = w'
   \<and> LOS.psi (updateState self x' y' z' u' v' w' psi' r' time) = psi'
   \<and> r (updateState self x' y' z' u' v' w' psi' r' time) = r'
   \<and> t (updateState self x' y' z' u' v' w' psi' r' time) = time"
  by (simp add: updateState_def LOS_h_def)

section \<open>One call, one step\<close>

text \<open>
  C10. In one call of \<open>fixHeadingWrapping\<close> the two tests on the reference heading look
  at the same error, computed once, and cannot both hold: the reference heading is moved
  by \<open>-2\<pi>\<close>, by \<open>+2\<pi>\<close> or not at all. Likewise the two tests after the filter look at
  one error and cannot both hold: the result is the raw filter output or that of exactly
  one reset and re-run. Hence, when a finite reference heading is more than \<open>3\<pi>\<close> away
  from the measured heading, it is still more than \<open>\<pi>\<close> away after the call.
\<close>

theorem fixHeadingWrapping_single_step:
  "let e1 = np_sub (Finite (psi node)) (psi_ref node);
       ref' = psi_ref (fst (fixHeadingWrapping rm node));
       node2 = node\<lparr>psi_ref := ref'\<rparr>;
       raw = discreteTustinMSD rm (reference_model node) (speed (los node), ref');
       e2 = np_sub (Finite (psi node)) (psi_d (snd raw))
   in \<not> (np_less e1 (Finite (- pi)) \<and> np_less (Finite pi) e1)
    \<and> ref' = (if np_less e1 (Finite (- pi)) then np_sub (psi_ref node) (Finite (2 * pi))
               else if np_less (Finite pi) e1 then np_add (psi_ref node) (Finite (2 * pi))
               else psi_ref node)
    \<and> \<not> (np_less e2 (Finite (- pi)) \<and> np_less (Finite pi) e2)
    \<and> fixHeadingWrapping rm node =
        (if np_less (Finite pi) e2
         then spec_reset_and_rerun rm node2 (np_sub (psi_d (snd raw)) (Finite (2 * pi)))
         else if np_less e2 (Finite (- pi))
         then spec_reset_and_rerun rm node2 (np_add (psi_d (snd raw)) (Finite (2 * pi)))
         else (node2\<lparr>reference_model := fst raw\<rparr>, snd raw))
    \<and> (\<forall>a. psi_ref node = Finite a \<and> 3 * pi < \<bar>psi node - a\<bar> \<longrightarrow>
          ref' = Finite (if psi node < a then a - 2 * pi else a + 2 * pi)
          \<and> pi < \<bar>psi node - (if psi node < a then a - 2 * pi else a + 2 * pi)\<bar>)"
proof -
  have far: "wrap_psi_ref (psi node) (Finite a)
               = Finite (if psi node < a then a - 2 * pi else a + 2 * pi)
             \<and> pi < \<bar>psi node - (if psi node < a then a - 2 * pi else a + 2 * pi)\<bar>"
    if "3 * pi < \<bar>psi node - a\<bar>" for a
  proof (cases "psi node < a")
    case True
    with that have "psi node - a < - (3 * pi)" by linarith
    with pi_gt_zero show ?thesis
      using True by (simp add: wrap_psi_ref_Finite del: pi_gt_zero)
  next
    case False
    with that have "3 * pi < psi node - a" by linarith
    with pi_gt_zero show ?thesis
      using False by (simp add: wrap_psi_ref_Finite del: pi_gt_zero)
  qed
  show ?thesis
    unfolding fixHeadingWrapping_psi_ref Let_def
    apply (intro conjI)
        apply (rule np_less_exclusive)
       apply (simp add: wrap_psi_ref_def)
      apply (rule np_less_exclusive)
     apply (simp add: fixHeadingWrapping_cases Let_def)
    apply (simp add: far)
    done
qed

theorem fixHeadingWrapping_single_step_witness:
  "psi_ref (node_wrap 12 0 12) = Finite 0
   \<and> 3 * pi < \<bar>psi (node_wrap 12 0 12) - 0\<bar>
   \<and> psi_ref (fst (fixHeadingWrapping unit_delay (node_wrap 12 0 12))) = Finite (0 + 2 * pi)
   \<and> pi < \<bar>psi (node_wrap 12 0 12) - (0 + 2 * pi)\<bar>"
proof -
  let ?N = "node_wrap 12 0 12"
  have ref: "psi_ref ?N = Finite 0" and heading: "psi ?N = 12"
    by (simp_all add: node_wrap_def)
  have far: "3 * pi < \<bar>psi ?N - 0\<bar>"
    using pi_less_4 by (simp add: heading)
  have "\<forall>a. psi_ref ?N = Finite a \<and> 3 * pi < \<bar>psi ?N - a\<bar> \<longrightarrow>
          psi_ref (fst (fixHeadingWrapping unit_delay ?N))
            = Finite (if psi ?N < a then a - 2 * pi else a + 2 * pi)
          \<and> pi < \<bar>psi ?N - (if psi ?N < a then a - 2 * pi else a + 2 * pi)\<bar>"
    using fixHeadingWrapping_single_step [where rm = unit_delay and node = ?N]
    unfolding Let_def by blast
  with ref far have
    "psi_ref (fst (fixHeadingWrapping unit_delay ?N))
       = Finite (if psi ?N < 0 then 0 - 2 * pi else 0 + 2 * pi)
     \<and> pi < \<bar>psi ?N - (if psi ?N < 0 then 0 - 2 * pi else 0 + 2 * pi)\<bar>"
    by blast
  then have "psi_ref (fst (fixHeadingWrapping unit_delay ?N)) = Finite (0 + 2 * pi)
     \<and> pi < \<bar>psi ?N - (0 + 2 * pi)\<bar>"
    by (simp add: heading)
  with ref far show ?thesis by blast
qed

end
